theory Spec2Isabelle
  imports Complex_Main
begin

section \<open>Telemetry estimation engine of TinyPedal: sectors and fuel modules\<close>

text \<open>
  The two modules \<^verbatim>\<open>module_sectors.py\<close> and \<^verbatim>\<open>module_fuel.py\<close> are embedded as
  functions on explicit state. One pass through the body of the polling loop is a function
  from the telemetry read at that wake and the loop's local variables to the updated local
  variables. Python floats are idealised as reals; every exception the source can raise is
  a value of type \<open>error\<close>.
\<close>

datatype error = IndexError | ValueError | ZeroDivisionError

subsection \<open>The telemetry read surface\<close>

text \<open>
  One record holds what a single wake reads through \<^verbatim>\<open>api.state\<close> and \<^verbatim>\<open>api.read.*\<close>;
  the field names follow the access paths of the source.
\<close>

record telemetry =
  api_state :: bool
  check_combo_id :: string
  check_session_id :: "real \<times> real \<times> real"
  lap_sector_index :: int
  timing_last_laptime :: real
  timing_current_sector1 :: real
  timing_current_sector2 :: real
  timing_last_sector2 :: real
  timing_start :: real
  timing_current_laptime :: real
  session_remaining :: real
  session_lap_type :: bool
  vehicle_fuel :: real
  vehicle_tank_capacity :: real
  vehicle_in_garage :: bool
  vehicle_in_pits :: bool
  vehicle_pos :: "real \<times> real \<times> real"
  lap_distance :: real
  lap_total_laps :: real
  lap_percent :: real
  lap_maximum :: real

subsection \<open>Sectors module\<close>

definition MAGIC_NUM :: real where
  "MAGIC_NUM = 99999"

text \<open>
  Modelled from the spec: \<^verbatim>\<open>val.sector_time\<close> lives in the validator module, which is not
  among the sources. The specification gives the predicate: a sector time is valid when it
  is greater than zero and less than the unset sentinel 99999; applied to a list, every
  element has to be valid. The source calls the one function on scalars and on lists; the
  two uses are two constants here.
\<close>

definition sector_time :: "real \<Rightarrow> bool" where
  "sector_time v = (0 < v \<and> v < MAGIC_NUM)"

definition sector_time_list :: "real list \<Rightarrow> bool" where
  "sector_time_list vs = list_all sector_time vs"

text \<open>The local variables of \<^verbatim>\<open>Realtime.__update_data\<close> that live across wakes.\<close>

record sectors =
  last_sector_idx :: int
  laptime_best :: real
  best_s_tb :: "real list"
  best_s_pb :: "real list"
  delta_s_tb :: "real list"
  delta_s_pb :: "real list"
  prev_s :: "real list"
  no_delta_s :: bool

text \<open>
  The three branches of the sector update. Each is entered with the sector time already
  known to the branch condition; \<open>k\<close> is the slot written, and the chaining term of the
  personal-best delta is passed by the caller (sector 1 has none).
\<close>

definition update_deltas :: "nat \<Rightarrow> real \<Rightarrow> sectors \<Rightarrow> sectors" where
  "update_deltas k chain s =
     (let s = (if sector_time (best_s_pb s ! k)
               then s\<lparr>delta_s_pb := (delta_s_pb s)[k := prev_s s ! k - best_s_pb s ! k + chain]\<rparr>
               else s);
          s = (if sector_time (best_s_tb s ! k)
               then s\<lparr>delta_s_tb := (delta_s_tb s)[k := prev_s s ! k - best_s_tb s ! k],
                      no_delta_s := False\<rparr>
               else s\<lparr>no_delta_s := True\<rparr>);
          s = (if prev_s s ! k < best_s_tb s ! k
               then s\<lparr>best_s_tb := (best_s_tb s)[k := prev_s s ! k]\<rparr>
               else s)
      in s)"

definition update_s3 :: "telemetry \<Rightarrow> sectors \<Rightarrow> sectors" where
  "update_s3 api s =
     (let laptime_valid = timing_last_laptime api;
          s = s\<lparr>last_sector_idx := lap_sector_index api\<rparr>;
          s = s\<lparr>prev_s := (prev_s s)[2 := laptime_valid - timing_last_sector2 api]\<rparr>;
          s = update_deltas 2 (delta_s_pb s ! 1) s;
          s = (if laptime_valid < laptime_best s \<and> sector_time_list (prev_s s)
               then s\<lparr>laptime_best := laptime_valid, best_s_pb := prev_s s\<rparr>
               else s)
      in s)"

definition update_s1 :: "telemetry \<Rightarrow> sectors \<Rightarrow> sectors" where
  "update_s1 api s =
     (let s = s\<lparr>last_sector_idx := lap_sector_index api\<rparr>;
          s = s\<lparr>prev_s := (prev_s s)[0 := timing_current_sector1 api]\<rparr>
      in update_deltas 0 0 s)"

definition update_s2 :: "telemetry \<Rightarrow> sectors \<Rightarrow> sectors" where
  "update_s2 api s =
     (let s = s\<lparr>last_sector_idx := lap_sector_index api\<rparr>;
          s = s\<lparr>prev_s := (prev_s s)[1 := timing_current_sector2 api - timing_current_sector1 api]\<rparr>
      in update_deltas 1 (delta_s_pb s ! 0) s)"

text \<open>The body of the loop for an active session, after the reset block.\<close>

definition update_sectors :: "telemetry \<Rightarrow> sectors \<Rightarrow> sectors" where
  "update_sectors api s =
     (if last_sector_idx s \<noteq> lap_sector_index api then
        if lap_sector_index api = 0 \<and> timing_last_laptime api > 0 \<and> timing_last_sector2 api > 0
        then update_s3 api s
        else if lap_sector_index api = 1 \<and> timing_current_sector1 api > 0
        then update_s1 api s
        else if lap_sector_index api = 2 \<and> timing_current_sector2 api > 0
                \<and> timing_current_sector1 api > 0
        then update_s2 api s
        else s
      else s)"

subsection \<open>Sectors module: the persisted record\<close>

text \<open>
  Modelled from the spec: \<^verbatim>\<open>fmt.pipe_split\<close> lives in the formatter module, which is not
  among the sources. The specification fixes the stored record as one pipe-delimited
  string, so splitting is Python's \<^verbatim>\<open>str.split("|")\<close>: the fields between the bars, one
  field (the empty string) for the empty string.
\<close>

fun pipe_split :: "string \<Rightarrow> string list" where
  "pipe_split [] = [[]]"
| "pipe_split (c # cs) =
     (if c = CHR ''|'' then [] # pipe_split cs
      else (case pipe_split cs of [] \<Rightarrow> [[c]] | w # ws \<Rightarrow> (c # w) # ws))"

text \<open>
  Python's builtin \<^verbatim>\<open>float\<close> on strings is a parameter \<open>pf\<close> of the functions that call
  it: \<open>None\<close> stands for the \<^verbatim>\<open>ValueError\<close> it raises on a string that is not a number.
  \<open>map_float\<close> is \<^verbatim>\<open>tuple(map(float, ...))\<close>, which stops at the first string that fails.
\<close>

fun map_float :: "(string \<Rightarrow> real option) \<Rightarrow> string list \<Rightarrow> error + real list" where
  "map_float pf [] = Inr []"
| "map_float pf (x # xs) =
     (case pf x of
        None \<Rightarrow> Inl ValueError
      | Some v \<Rightarrow> (case map_float pf xs of Inl e \<Rightarrow> Inl e | Inr vs \<Rightarrow> Inr (v # vs)))"

definition convert_value ::
    "(string \<Rightarrow> real option) \<Rightarrow> string list \<Rightarrow> error + string \<times> real list" where
  "convert_value pf string_list =
     (case string_list of
        [] \<Rightarrow> Inl IndexError
      | x # xs \<Rightarrow> (case map_float pf xs of Inl e \<Rightarrow> Inl e | Inr vs \<Rightarrow> Inr (x, vs)))"

text \<open>
  The list built by \<^verbatim>\<open>parse_save_string\<close>: the seven entries of a full record, or the
  one-element list \<^verbatim>\<open>["None"]\<close> after the \<^verbatim>\<open>IndexError\<close> of a short record.
\<close>

datatype saved_data =
    Saved string real real real real "real list" "real list"
  | Unsaved

text \<open>
  \<^verbatim>\<open>convert_value\<close> is called before the \<^verbatim>\<open>try\<close>, so its error leaves the function;
  inside the \<^verbatim>\<open>try\<close>, \<^verbatim>\<open>data[10]\<close> is the last index read, and \<open>data\<close> is the combination
  name followed by the numbers \<open>vs\<close>.
\<close>

definition parse_save_string :: "(string \<Rightarrow> real option) \<Rightarrow> string \<Rightarrow> error + saved_data" where
  "parse_save_string pf save_data =
     (case convert_value pf (pipe_split save_data) of
        Inl e \<Rightarrow> Inl e
      | Inr (name, vs) \<Rightarrow>
          if 10 \<le> length vs
          then Inr (Saved name (vs ! 0) (vs ! 1) (vs ! 2) (vs ! 3)
                      [vs ! 4, vs ! 5, vs ! 6] [vs ! 7, vs ! 8, vs ! 9])
          else Inr Unsaved)"

definition sector_defaults :: "real \<times> real list \<times> real list" where
  "sector_defaults =
     (MAGIC_NUM, [MAGIC_NUM, MAGIC_NUM, MAGIC_NUM], [MAGIC_NUM, MAGIC_NUM, MAGIC_NUM])"

text \<open>
  \<^verbatim>\<open>load_sector_data\<close>; \<open>sector_info\<close> is the string stored under
  \<^verbatim>\<open>self.mcfg["sector_info"]\<close>. On the list \<^verbatim>\<open>["None"]\<close> the first comparison is with
  the string \<^verbatim>\<open>"None"\<close>, and the second reads index 1, which that list does not have.
\<close>

definition load_sector_data ::
    "(string \<Rightarrow> real option) \<Rightarrow> string \<Rightarrow> string \<Rightarrow> real \<times> real \<times> real
      \<Rightarrow> error + real \<times> real list \<times> real list" where
  "load_sector_data pf sector_info combo_id session_id =
     (case parse_save_string pf sector_info of
        Inl e \<Rightarrow> Inl e
      | Inr Unsaved \<Rightarrow>
          if combo_id = ''None'' then Inl IndexError else Inr sector_defaults
      | Inr (Saved name stype elapsed laps laptime tb pb) \<Rightarrow>
          if combo_id = name \<and> stype = fst session_id \<and> elapsed \<le> fst (snd session_id)
             \<and> laps \<le> snd (snd session_id)
          then Inr (laptime, tb, pb)
          else Inr sector_defaults)"

text \<open>
  An instance of the parameter \<open>pf\<close> for concrete records: it reads a non-empty string of
  decimal digits as \<^verbatim>\<open>float\<close> does, and is used below only at such strings and at strings
  that \<^verbatim>\<open>float\<close> rejects.
\<close>

definition float_digits :: "string \<Rightarrow> real option" where
  "float_digits s =
     (if s \<noteq> [] \<and> list_all (\<lambda>c. 48 \<le> (of_char c :: nat) \<and> (of_char c :: nat) \<le> 57) s
      then Some (real (foldl (\<lambda>n c. 10 * n + (of_char c - 48)) 0 s))
      else None)"

subsection \<open>Fuel module: arithmetic of the source\<close>

text \<open>
  Python's \<^verbatim>\<open>/\<close> raises \<^verbatim>\<open>ZeroDivisionError\<close> on a zero divisor, where HOL's division
  returns 0. Every division of the projection functions goes through \<open>truediv\<close>, so that
  a guard of the source shows as a branch that never reaches the error.
\<close>

definition truediv :: "real \<Rightarrow> real \<Rightarrow> error + real" where
  "truediv a b = (if b = 0 then Inl ZeroDivisionError else Inr (a / b))"

definition bind_err :: "error + 'a \<Rightarrow> ('a \<Rightarrow> error + 'b) \<Rightarrow> error + 'b" where
  "bind_err m k = (case m of Inl e \<Rightarrow> Inl e | Inr x \<Rightarrow> k x)"

text \<open>\<^verbatim>\<open>math.modf(x)[0]\<close>: the fractional part, with the sign of \<open>x\<close>.\<close>

definition modf_frac :: "real \<Rightarrow> real" where
  "modf_frac x = x - of_int (if 0 \<le> x then \<lfloor>x\<rfloor> else \<lceil>x\<rceil>)"

text \<open>\<^verbatim>\<open>round(x, 6)\<close>: six decimals, a tie going to the even neighbour.\<close>

definition round_half_even :: "real \<Rightarrow> int" where
  "round_half_even x =
     (let f = \<lfloor>x\<rfloor>
      in if x - of_int f < 1 / 2 then f
         else if x - of_int f > 1 / 2 then f + 1
         else if even f then f else f + 1)"

definition round6 :: "real \<Rightarrow> real" where
  "round6 x = of_int (round_half_even (x * 1000000)) / 1000000"

subsection \<open>Fuel module: projection functions\<close>

definition end_lap_consumption :: "real \<Rightarrow> real \<Rightarrow> bool \<Rightarrow> real" where
  "end_lap_consumption used_last delta_fuel condition =
     (if condition then used_last + delta_fuel else used_last)"

definition end_stint_fuel :: "real \<Rightarrow> real \<Rightarrow> real \<Rightarrow> error + real" where
  "end_stint_fuel amount_curr used_curr used_est =
     (if used_est \<noteq> 0
      then bind_err (truediv (amount_curr + used_curr) used_est)
             (\<lambda>q. Inr (modf_frac q * used_est))
      else Inr 0)"

definition end_stint_laps :: "real \<Rightarrow> real \<Rightarrow> error + real" where
  "end_stint_laps amount_curr used_est =
     (if used_est \<noteq> 0 then truediv amount_curr used_est else Inr 0)"

definition end_lap_empty_capacity :: "real \<Rightarrow> real \<Rightarrow> real \<Rightarrow> real" where
  "end_lap_empty_capacity capacity fuel_remain fuel_consumption =
     capacity - fuel_remain + fuel_consumption"

definition end_stint_pit_counts :: "real \<Rightarrow> real \<Rightarrow> error + real" where
  "end_stint_pit_counts amount_need capacity = truediv amount_need capacity"

definition end_lap_pit_counts :: "real \<Rightarrow> real \<Rightarrow> real \<Rightarrow> error + real" where
  "end_lap_pit_counts amount_need est_empty capacity =
     (let max_add_curr = min amount_need est_empty
      in bind_err (if est_empty \<noteq> 0 then truediv max_add_curr est_empty else Inr 1)
           (\<lambda>est_pits_curr.
              bind_err (truediv (amount_need - max_add_curr) capacity)
                (\<lambda>est_pits_end. Inr (est_pits_curr + est_pits_end))))"

definition less_pit_stop_consumption :: "real \<Rightarrow> real \<Rightarrow> real \<Rightarrow> real \<Rightarrow> error + real" where
  "less_pit_stop_consumption est_pits_late capacity amount_curr laps_left =
     (if laps_left \<noteq> 0
      then (let pit_counts = of_int \<lceil>est_pits_late\<rceil> - 1
            in truediv (pit_counts * capacity + amount_curr) laps_left)
      else Inr 0)"

subsection \<open>Fuel module: the state of the polling loop\<close>

text \<open>
  A row of a usage curve is a tuple of two numbers (distance, fuel used) or of three (the
  closing row adds the laptime); a curve is a list of rows.
\<close>

type_synonym curve = "real list list"

definition DELTA_ZERO :: "real list" where
  "DELTA_ZERO = [0, 0]"

text \<open>
  \<^verbatim>\<open>gps_last\<close> starts as the list \<^verbatim>\<open>[0,0,0]\<close> and is a tuple from the first wake on; a
  Python list never equals a tuple, which the comparison of the two positions sees.
\<close>

datatype gps = GpsList "real \<times> real \<times> real" | GpsTuple "real \<times> real \<times> real"

fun coords :: "gps \<Rightarrow> real \<times> real \<times> real" where
  "coords (GpsList p) = p"
| "coords (GpsTuple p) = p"

text \<open>
  \<^verbatim>\<open>calc.distance\<close> and \<^verbatim>\<open>calc.delta_telemetry\<close> belong to the calculation module, which
  is not among the sources; they are parameters of the loop body.
\<close>

record calc =
  calc_distance :: "real \<times> real \<times> real \<Rightarrow> real \<times> real \<times> real \<Rightarrow> real"
  calc_delta_telemetry :: "real \<Rightarrow> real \<Rightarrow> curve \<Rightarrow> bool \<Rightarrow> real"

text \<open>The local variables of \<^verbatim>\<open>Realtime.__update_data\<close> set by its reset block.\<close>

record fuel =
  recording :: bool
  validating :: bool
  delayed_save :: bool
  pit_lap :: bool
  delta_list_last :: curve
  used_last :: real
  laptime_last :: real
  delta_list_curr :: curve
  delta_list_temp :: curve
  delta_fuel :: real
  amount_start :: real
  amount_last :: real
  amount_need :: real
  amount_left :: real
  used_curr :: real
  used_last_raw :: real
  used_est :: real
  est_runlaps :: real
  est_runmins :: real
  est_empty :: real
  est_pits_late :: real
  est_pits_early :: real
  used_est_less :: real
  last_lap_stime :: real
  laps_left :: real
  pos_last :: real
  pos_estimate :: real
  gps_last :: gps

text \<open>The reset block, given what \<^verbatim>\<open>load_deltafuel\<close> returned.\<close>

definition reset_fuel :: "curve \<times> real \<times> real \<Rightarrow> fuel" where
  "reset_fuel loaded =
     \<lparr>recording = False, validating = False, delayed_save = False, pit_lap = False,
      delta_list_last = fst loaded, used_last = fst (snd loaded),
      laptime_last = snd (snd loaded),
      delta_list_curr = [DELTA_ZERO], delta_list_temp = [DELTA_ZERO], delta_fuel = 0,
      amount_start = 0, amount_last = 0, amount_need = 0, amount_left = 0, used_curr = 0,
      used_last_raw = fst (snd loaded), used_est = 0, est_runlaps = 0, est_runmins = 0,
      est_empty = 0, est_pits_late = 0, est_pits_early = 0, used_est_less = 0,
      last_lap_stime = - 1, laps_left = 0, pos_last = 0, pos_estimate = 0,
      gps_last = GpsList (0, 0, 0)\<rparr>"

subsection \<open>Fuel module: one pass of the loop body, tracking part\<close>

definition read_laptime_curr :: "telemetry \<Rightarrow> real" where
  "read_laptime_curr api = max (timing_current_laptime api) 0"

definition read_capacity :: "telemetry \<Rightarrow> real" where
  "read_capacity api = max (vehicle_tank_capacity api) 1"

text \<open>\<^verbatim>\<open>pit_lap = bool(pit_lap + api.read.vehicle.in_pits())\<close>\<close>

definition track_pit_lap :: "telemetry \<Rightarrow> fuel \<Rightarrow> fuel" where
  "track_pit_lap api f = f\<lparr>pit_lap := (pit_lap f \<or> vehicle_in_pits api)\<rparr>"

text \<open>Realtime fuel consumption.\<close>

definition track_consumption :: "telemetry \<Rightarrow> fuel \<Rightarrow> fuel" where
  "track_consumption api f =
     (let amount_curr = vehicle_fuel api
      in if amount_last f < amount_curr
         then f\<lparr>amount_last := amount_curr, amount_start := amount_curr\<rparr>
         else if amount_last f > amount_curr
         then f\<lparr>used_curr := used_curr f + (amount_last f - amount_curr),
                 amount_last := amount_curr\<rparr>
         else f)"

text \<open>Lap start and finish detection: \<^verbatim>\<open>if lap_stime > last_lap_stime != -1\<close>.\<close>

definition close_lap :: "telemetry \<Rightarrow> fuel \<Rightarrow> fuel" where
  "close_lap api f =
     (let lap_stime = timing_start api;
          f = (if length (delta_list_curr f) > 1 \<and> \<not> pit_lap f
               then f\<lparr>delta_list_temp := delta_list_curr f @
                         [[round6 (pos_last f + 10), round6 (used_curr f),
                           round6 (lap_stime - last_lap_stime f)]],
                       validating := True\<rparr>
               else f)
      in f\<lparr>delta_list_curr := [DELTA_ZERO], pos_last := lap_distance api,
           used_last_raw := used_curr f, used_curr := 0,
           recording := (read_laptime_curr api < 1), pit_lap := False\<rparr>)"

definition track_lap :: "telemetry \<Rightarrow> fuel \<Rightarrow> fuel" where
  "track_lap api f =
     (let lap_stime = timing_start api;
          f = (if lap_stime > last_lap_stime f \<and> last_lap_stime f \<noteq> - 1
               then close_lap api f else f)
      in f\<lparr>last_lap_stime := lap_stime\<rparr>)"

text \<open>
  The position check one second after a new lap and the position update; the local
  \<^verbatim>\<open>pos_curr\<close> is set to 0 by the check together with \<^verbatim>\<open>pos_last\<close>.
\<close>

definition track_position :: "telemetry \<Rightarrow> fuel \<Rightarrow> fuel" where
  "track_position api f =
     (let laptime_curr = read_laptime_curr api;
          snap = (0 < laptime_curr \<and> laptime_curr < 1 \<and> lap_distance api > 300);
          pos_curr = (if snap then 0 else lap_distance api);
          f = (if snap then f\<lparr>pos_last := 0\<rparr> else f)
      in if 0 \<le> pos_curr \<and> pos_curr \<noteq> pos_last f
         then (let f = (if recording f \<and> pos_curr > pos_last f
                        then f\<lparr>delta_list_curr := delta_list_curr f @
                                  [[round6 pos_curr, round6 (used_curr f)]]\<rparr>
                        else f)
               in f\<lparr>pos_estimate := pos_curr, pos_last := pos_curr\<rparr>)
         else f)"

text \<open>Validating after passing the finish line.\<close>

definition track_validation :: "telemetry \<Rightarrow> fuel \<Rightarrow> fuel" where
  "track_validation api f =
     (let laptime_curr = read_laptime_curr api
      in if validating f then
           if 2 / 10 < laptime_curr \<and> laptime_curr \<le> 3 then
             if timing_last_laptime api > 0
             then f\<lparr>used_last := used_last_raw f, laptime_last := timing_last_laptime api,
                     delta_list_last := delta_list_temp f, delta_list_temp := [DELTA_ZERO],
                     validating := False, delayed_save := True\<rparr>
             else f
           else if 3 < laptime_curr \<and> laptime_curr < 5
           then f\<lparr>validating := False\<rparr>
           else f
         else f)"

text \<open>Delta fuel against the reference curve.\<close>

definition track_delta :: "calc \<Rightarrow> telemetry \<Rightarrow> fuel \<Rightarrow> fuel" where
  "track_delta C api f =
     (let gps_curr = GpsTuple (vehicle_pos api)
      in if gps_last f \<noteq> gps_curr
         then (let f = f\<lparr>pos_estimate := pos_estimate f
                            + calc_distance C (coords (gps_last f)) (coords gps_curr)\<rparr>;
                   f = f\<lparr>gps_last := gps_curr\<rparr>
               in f\<lparr>delta_fuel := calc_delta_telemetry C (pos_estimate f) (used_curr f)
                       (delta_list_last f)
                       (read_laptime_curr api > 3 / 10 \<and> \<not> vehicle_in_garage api)\<rparr>)
         else f)"

definition update_tracking :: "calc \<Rightarrow> telemetry \<Rightarrow> fuel \<Rightarrow> fuel" where
  "update_tracking C api f =
     track_delta C api (track_validation api (track_position api
       (track_lap api (track_consumption api (track_pit_lap api f)))))"

subsection \<open>Fuel module: one pass of the loop body, projection part\<close>

text \<open>
  Laps left and fuel needed. The two divisions of the time-type branch have the divisor
  \<^verbatim>\<open>laptime_last\<close>, which the branch condition makes positive.
\<close>

definition project_need :: "telemetry \<Rightarrow> fuel \<Rightarrow> fuel" where
  "project_need api f =
     (let laptime_curr = read_laptime_curr api;
          amount_curr = vehicle_fuel api
      in if session_lap_type api
         then (let full_laps_left = lap_maximum api - lap_total_laps api;
                   f = f\<lparr>laps_left := full_laps_left - lap_percent api\<rparr>
               in f\<lparr>amount_need := laps_left f * used_est f - amount_curr\<rparr>)
         else if laptime_last f > 0
         then (let rel_lap_into = modf_frac (laptime_curr / laptime_last f) * laptime_last f;
                   full_laps_left =
                     of_int \<lceil>(session_remaining api + rel_lap_into) / laptime_last f\<rceil>;
                   f = (if laptime_curr > 2 / 10
                        then f\<lparr>laps_left := max (full_laps_left - lap_percent api) 0\<rparr>
                        else f)
               in f\<lparr>amount_need := full_laps_left * used_est f - used_curr f - amount_curr\<rparr>)
         else f)"

definition update_projection :: "telemetry \<Rightarrow> fuel \<Rightarrow> error + fuel" where
  "update_projection api f =
     (let amount_curr = vehicle_fuel api;
          capacity = read_capacity api;
          f = f\<lparr>used_est := end_lap_consumption (used_last f) (delta_fuel f)
                               (\<not> pit_lap f \<and> 0 < lap_total_laps api)\<rparr>;
          f = project_need api f
      in bind_err (end_stint_fuel amount_curr (used_curr f) (used_est f)) (\<lambda>left.
         bind_err (end_stint_laps amount_curr (used_est f)) (\<lambda>runlaps.
         bind_err (end_stint_pit_counts (amount_need f) (capacity - left)) (\<lambda>late.
         bind_err (end_lap_pit_counts (amount_need f)
                     (end_lap_empty_capacity capacity (amount_curr + used_curr f)
                        (used_last f + delta_fuel f))
                     (capacity - left)) (\<lambda>early.
         bind_err (less_pit_stop_consumption late capacity amount_curr (laps_left f)) (\<lambda>less.
           Inr (f\<lparr>amount_left := left, est_runlaps := runlaps,
                   est_runmins := runlaps * laptime_last f / 60,
                   est_empty := end_lap_empty_capacity capacity (amount_curr + used_curr f)
                                  (used_last f + delta_fuel f),
                   est_pits_late := late, est_pits_early := early,
                   used_est_less := less\<rparr>)))))))"

text \<open>The body of the loop for an active session, after the reset block.\<close>

definition update_fuel :: "calc \<Rightarrow> telemetry \<Rightarrow> fuel \<Rightarrow> error + fuel" where
  "update_fuel C api f = update_projection api (update_tracking C api f)"

text \<open>The values published to \<^verbatim>\<open>minfo.fuel\<close> at the end of the pass.\<close>

record minfo_fuel =
  tankCapacity :: real
  amountFuelStart :: real
  amountFuelCurrent :: real
  amountFuelNeeded :: real
  amountFuelBeforePitstop :: real
  lastLapFuelConsumption :: real
  estimatedFuelConsumption :: real
  estimatedLaps :: real
  estimatedMinutes :: real
  estimatedEmptyCapacity :: real
  estimatedNumPitStopsEnd :: real
  estimatedNumPitStopsEarly :: real
  deltaFuelConsumption :: real
  oneLessPitFuelConsumption :: real

definition output_fuel :: "telemetry \<Rightarrow> fuel \<Rightarrow> minfo_fuel" where
  "output_fuel api f =
     \<lparr>tankCapacity = read_capacity api, amountFuelStart = amount_start f,
      amountFuelCurrent = vehicle_fuel api, amountFuelNeeded = amount_need f,
      amountFuelBeforePitstop = amount_left f, lastLapFuelConsumption = used_last_raw f,
      estimatedFuelConsumption = used_last f + delta_fuel f, estimatedLaps = est_runlaps f,
      estimatedMinutes = est_runmins f, estimatedEmptyCapacity = est_empty f,
      estimatedNumPitStopsEnd = est_pits_late f, estimatedNumPitStopsEarly = est_pits_early f,
      deltaFuelConsumption = delta_fuel f, oneLessPitFuelConsumption = used_est_less f\<rparr>"

text \<open>
  Consecutive passes of the loop body during one active session; an exception ends the
  thread, so the passes after it do not happen.
\<close>

fun update_fuel_seq :: "calc \<Rightarrow> telemetry list \<Rightarrow> fuel \<Rightarrow> error + fuel" where
  "update_fuel_seq C [] f = Inr f"
| "update_fuel_seq C (api # apis) f = bind_err (update_fuel C api f) (update_fuel_seq C apis)"

text \<open>An instance of the parameter \<open>C\<close> for concrete passes.\<close>

definition calc_zero :: calc where
  "calc_zero = \<lparr>calc_distance = (\<lambda>p q. 0), calc_delta_telemetry = (\<lambda>pos used ref cond. 0)\<rparr>"

text \<open>
  No lap boundary is detected along a run of passes: \<open>stime\<close> is the lap start time
  seen last before the run.
\<close>

fun within_lap :: "real \<Rightarrow> telemetry list \<Rightarrow> bool" where
  "within_lap stime [] = True"
| "within_lap stime (api # apis) =
     (\<not> (timing_start api > stime \<and> stime \<noteq> - 1) \<and> within_lap (timing_start api) apis)"

text \<open>
  A state in the middle of a lap that began at time 10: the fuel level read last is 7,
  3 have been used in this lap, the last lap used 2.
\<close>

definition fuel_mid_lap :: fuel where
  "fuel_mid_lap = (reset_fuel ([[99999, 0, 0]], 2, 90))
     \<lparr>amount_last := 7, used_curr := 3, last_lap_stime := 10\<rparr>"

text \<open>A telemetry sample with every reading at rest, the base of the concrete samples below.\<close>

definition telemetry_zero :: telemetry where
  "telemetry_zero =
     \<lparr>api_state = True, check_combo_id = ''combo'', check_session_id = (1, 600, 12),
      lap_sector_index = 0, timing_last_laptime = 0, timing_current_sector1 = 0,
      timing_current_sector2 = 0, timing_last_sector2 = 0, timing_start = 0,
      timing_current_laptime = 0, session_remaining = 0, session_lap_type = True,
      vehicle_fuel = 0, vehicle_tank_capacity = 0, vehicle_in_garage = False,
      vehicle_in_pits = False, vehicle_pos = (0, 0, 0), lap_distance = 0,
      lap_total_laps = 0, lap_percent = 0, lap_maximum = 0\<rparr>"

text \<open>
  A concrete session, used for the runs of passes below. The reset loaded a saved curve
  whose last lap used 2 in 90 seconds; the tank holds 100.
\<close>

definition fuel_loaded :: fuel where
  "fuel_loaded = reset_fuel ([[0, 0], [100, 2, 90]], 2, 90)"

text \<open>The first sample of the session: lap start time 10, fuel level 7.\<close>

definition tick_first :: telemetry where
  "tick_first = telemetry_zero\<lparr>timing_start := 10, vehicle_fuel := 7,
     vehicle_tank_capacity := 100\<rparr>"

text \<open>The lap start time moves to 100 while the vehicle is in the pits.\<close>

definition tick_line_in_pits :: telemetry where
  "tick_line_in_pits = telemetry_zero\<lparr>timing_start := 100, vehicle_fuel := 7,
     vehicle_tank_capacity := 100, vehicle_in_pits := True\<rparr>"

text \<open>Ten seconds into that lap, still in the pits, 20 from the line.\<close>

definition tick_pit_lane :: telemetry where
  "tick_pit_lane = telemetry_zero\<lparr>timing_start := 100, timing_current_laptime := 10,
     vehicle_fuel := 7, vehicle_tank_capacity := 100, vehicle_in_pits := True,
     lap_distance := 20\<rparr>"

text \<open>Thirty seconds into that lap, out of the pits, 50 from the line, fuel level 6.\<close>

definition tick_on_track :: telemetry where
  "tick_on_track = telemetry_zero\<lparr>timing_start := 100, timing_current_laptime := 30,
     vehicle_fuel := 6, vehicle_tank_capacity := 100, lap_distance := 50\<rparr>"

text \<open>The lap start time moves to 190, out of the pits, fuel level 5.\<close>

definition tick_next_line :: telemetry where
  "tick_next_line = telemetry_zero\<lparr>timing_start := 190, vehicle_fuel := 5,
     vehicle_tank_capacity := 100\<rparr>"

text \<open>
  The states of the loop along two runs of that session, after the samples
  \<open>tick_first\<close>, \<open>tick_line_in_pits\<close>, then either \<open>tick_on_track\<close>, \<open>tick_next_line\<close>
  or \<open>tick_pit_lane\<close>, \<open>tick_on_track\<close>, \<open>tick_next_line\<close>.
\<close>

definition run_first :: fuel where
  "run_first = fuel_loaded\<lparr>amount_start := 7, amount_last := 7, amount_need := - 7,
     amount_left := 1, used_est := 2, est_runlaps := 7 / 2, est_runmins := 21 / 4,
     est_empty := 95, est_pits_late := - (7 / 99), est_pits_early := - (7 / 95),
     last_lap_stime := 10, gps_last := GpsTuple (0, 0, 0)\<rparr>"

definition run_opened :: fuel where
  "run_opened = run_first\<lparr>recording := True, used_last_raw := 0, last_lap_stime := 100\<rparr>"

definition run_recorded :: fuel where
  "run_recorded = run_opened\<lparr>delta_list_curr := [[0, 0], [50, 1]], amount_last := 6,
     amount_need := - 6, used_curr := 1, est_runlaps := 3, est_runmins := 9 / 2,
     est_pits_late := - (2 / 33), est_pits_early := - (6 / 95), pos_last := 50,
     pos_estimate := 50\<rparr>"

definition run_closed :: fuel where
  "run_closed = run_recorded\<lparr>validating := True, delta_list_curr := [[0, 0]],
     delta_list_temp := [[0, 0], [50, 1], [60, 2, 90]], amount_last := 5,
     amount_need := - 5, used_curr := 0, used_last_raw := 2, est_runlaps := 5 / 2,
     est_runmins := 15 / 4, est_empty := 97, est_pits_late := - (5 / 99),
     est_pits_early := - (5 / 97), last_lap_stime := 190, pos_last := 0\<rparr>"

definition run_pitted :: fuel where
  "run_pitted = run_opened\<lparr>pit_lap := True, delta_list_curr := [[0, 0], [20, 0]],
     pos_last := 20, pos_estimate := 20\<rparr>"

definition run_pitted_recorded :: fuel where
  "run_pitted_recorded = run_pitted\<lparr>delta_list_curr := [[0, 0], [20, 0], [50, 1]],
     amount_last := 6, amount_need := - 6, used_curr := 1, est_runlaps := 3,
     est_runmins := 9 / 2, est_pits_late := - (2 / 33), est_pits_early := - (6 / 95),
     pos_last := 50, pos_estimate := 50\<rparr>"

definition run_pitted_closed :: fuel where
  "run_pitted_closed = run_pitted_recorded\<lparr>pit_lap := False, delta_list_curr := [[0, 0]],
     amount_last := 5, amount_need := - 5, used_curr := 0, used_last_raw := 2,
     est_runlaps := 5 / 2, est_runmins := 15 / 4, est_empty := 97,
     est_pits_late := - (5 / 99), est_pits_early := - (5 / 97), last_lap_stime := 190,
     pos_last := 0\<rparr>"

text \<open>
  A first sample that reports a tank capacity of 0, with fuel level 1/2 and ten laps to
  go, and the state after the pass that reads it.
\<close>

definition tick_small_tank :: telemetry where
  "tick_small_tank = telemetry_zero\<lparr>vehicle_fuel := 1 / 2, lap_maximum := 10\<rparr>"

definition run_small_tank :: fuel where
  "run_small_tank = fuel_loaded\<lparr>amount_start := 1 / 2, amount_last := 1 / 2,
     amount_need := 39 / 2, amount_left := 1 / 2, used_est := 2, est_runlaps := 1 / 4,
     est_runmins := 3 / 8, est_empty := 5 / 2, est_pits_late := 39, est_pits_early := 35,
     used_est_less := 77 / 20, last_lap_stime := 0, laps_left := 10,
     gps_last := GpsTuple (0, 0, 0)\<rparr>"

subsection \<open>The worker threads\<close>

text \<open>
  Each module runs \<^verbatim>\<open>__update_data\<close> in a thread of its own:
  \<^verbatim>\<open>while not self.event.wait(update_interval)\<close> runs the loop body at every wake by
  timeout, and leaves the loop at the wake at which \<^verbatim>\<open>stop()\<close> has set the event; after the
  loop the thread sets \<^verbatim>\<open>self.stopped = True\<close>. A run of the thread is given by the
  telemetry samples read at the wakes by timeout that precede the stop; an exception in
  the body ends the thread before \<^verbatim>\<open>stopped\<close> is set.
\<close>






















section \<open>Properties of the sectors module\<close>

lemma update_deltas_keeps [simp]:
  "best_s_pb (update_deltas k c s) = best_s_pb s"
  "laptime_best (update_deltas k c s) = laptime_best s"
  "prev_s (update_deltas k c s) = prev_s s"
  by (simp_all add: update_deltas_def Let_def)

text \<open>
  C1, sector-best update invariant. The claim is that a best slot holding a valid time
  (greater than 0, less than 99999) is never overwritten with an invalid time, in particular
  not by a computed sector time that is zero or negative. The theoretical-best update
  compares the new time with the stored one and nothing else: with sector-2 split 35 below
  sector-1 split 40, the computed sector-2 time is -5 and replaces the valid best 30.
\<close>

theorem theoretical_best_overwritten_by_negative:
  "sector_time 30 \<and> \<not> sector_time (- 5) \<and>
   best_s_tb (update_sectors
      (telemetry_zero\<lparr>lap_sector_index := 2, timing_current_sector1 := 40,
                      timing_current_sector2 := 35\<rparr>)
      \<lparr>last_sector_idx = 1, laptime_best = 99999, best_s_tb = [99999, 30, 99999],
       best_s_pb = [99999, 99999, 99999], delta_s_tb = [0, 0, 0], delta_s_pb = [0, 0, 0],
       prev_s = [40, 99999, 99999], no_delta_s = True\<rparr>) = [99999, - 5, 99999]"
  by (simp add: update_sectors_def update_s2_def update_deltas_def Let_def sector_time_def
      MAGIC_NUM_def telemetry_zero_def)



section \<open>Properties of the persisted sector record\<close>

lemma map_float_Some: "map pf fs = map Some vs \<Longrightarrow> map_float pf fs = Inr vs"
  by (induction fs arbitrary: vs) auto

lemma map_float_None: "x \<in> set fs \<Longrightarrow> pf x = None \<Longrightarrow> map_float pf fs = Inl ValueError"
  by (induction fs) (auto split: option.splits sum.splits)

text \<open>
  A record all of whose fields are numbers but which has fewer than eleven fields loads as
  the sentinel defaults, unless the current combination id is the string \<^verbatim>\<open>"None"\<close>.
\<close>

lemma short_record_defaults:
  assumes "pipe_split sector_info = name # fs" and "map pf fs = map Some vs"
    and "length vs < 10" and "combo_id \<noteq> ''None''"
  shows "load_sector_data pf sector_info combo_id session_id = Inr sector_defaults"
  using assms
  by (simp add: load_sector_data_def parse_save_string_def convert_value_def map_float_Some)




text \<open>
  C8, a malformed stored record. The claim is that neither a record with too few fields
  nor one with a field that is not a number raises. The second half fails: whenever any
  field after the first is rejected by \<^verbatim>\<open>float\<close>, the \<^verbatim>\<open>ValueError\<close> of
  \<^verbatim>\<open>convert_value\<close> leaves \<^verbatim>\<open>parse_save_string\<close> (whose handler covers only
  \<^verbatim>\<open>IndexError\<close>, and only the list construction) and \<^verbatim>\<open>load_sector_data\<close>.
\<close>

theorem unparseable_field_raises:
  assumes "pipe_split sector_info = name # fs" and "x \<in> set fs" and "pf x = None"
  shows "parse_save_string pf sector_info = Inl ValueError
     \<and> load_sector_data pf sector_info combo_id session_id = Inl ValueError"
  using assms
  by (simp add: load_sector_data_def parse_save_string_def convert_value_def map_float_None)

theorem unparseable_field_raises_witness:
  "parse_save_string float_digits ''combo|abc|500|10|90|30|30|30|31|32|33'' = Inl ValueError
   \<and> load_sector_data float_digits ''combo|abc|500|10|90|30|30|30|31|32|33'' ''combo'' (1, 600, 12)
     = Inl ValueError"
proof -
  have split: "pipe_split ''combo|abc|500|10|90|30|30|30|31|32|33''
      = ''combo'' # [''abc'', ''500'', ''10'', ''90'', ''30'', ''30'', ''30'', ''31'', ''32'', ''33'']"
    by simp
  have mem: "''abc'' \<in> set [''abc'', ''500'', ''10'', ''90'', ''30'', ''30'', ''30'', ''31'', ''32'', ''33'']"
    by simp
  have bad: "float_digits ''abc'' = None"
    by (simp add: float_digits_def)
  show ?thesis
    by (rule unparseable_field_raises [where pf = float_digits and x = "''abc''", OF split mem bad])
qed

section \<open>Properties of the fuel projections\<close>

text \<open>
  The divisions that the source guards never raise: these three functions return a value
  for all arguments.
\<close>

lemma guarded_divisions_total:
  "\<exists>y. end_stint_laps a u = Inr y"
  "\<exists>y. end_stint_fuel a v u = Inr y"
  "\<exists>y. less_pit_stop_consumption p c a l = Inr y"
  by (simp_all add: end_stint_laps_def end_stint_fuel_def less_pit_stop_consumption_def
      truediv_def bind_err_def Let_def)

text \<open>
  The first pass after a reset that loaded a last-lap usage of 2, with a fuel reading of 1
  and every other reading at rest (in particular a reported tank capacity of 0).
\<close>

lemma tracking_at_reset:
  "update_tracking C (telemetry_zero\<lparr>vehicle_fuel := 1\<rparr>) (reset_fuel ([[99999, 0, 0]], 2, 90))
   = (reset_fuel ([[99999, 0, 0]], 2, 90))\<lparr>amount_last := 1, amount_start := 1,
        last_lap_stime := 0, gps_last := GpsTuple (0, 0, 0),
        pos_estimate := calc_distance C (0, 0, 0) (0, 0, 0),
        delta_fuel := calc_delta_telemetry C (calc_distance C (0, 0, 0) (0, 0, 0)) 0
                        [[99999, 0, 0]] False\<rparr>"
  by (simp add: update_tracking_def track_delta_def track_validation_def track_position_def
      track_lap_def track_consumption_def track_pit_lap_def reset_fuel_def telemetry_zero_def
      read_laptime_curr_def Let_def)

text \<open>
  C4, division by zero in the projections. The claim is that no projection raises a
  division-by-zero error and that \<^verbatim>\<open>end_stint_laps\<close>, \<^verbatim>\<open>end_stint_pit_counts\<close> and
  \<^verbatim>\<open>end_lap_pit_counts\<close> are total. The two pit-count functions divide by their capacity
  argument without a guard and raise when it is 0. The loop body reaches that: the argument
  is the clamped tank capacity minus the fuel left before the next stop, which on the pass
  below is 1 - 1.
\<close>

theorem pit_counts_divide_by_zero:
  "end_stint_pit_counts 1 0 = Inl ZeroDivisionError
   \<and> end_lap_pit_counts 1 1 0 = Inl ZeroDivisionError
   \<and> update_fuel C (telemetry_zero\<lparr>vehicle_fuel := 1\<rparr>) (reset_fuel ([[99999, 0, 0]], 2, 90))
       = Inl ZeroDivisionError"
proof -
  have a: "end_stint_pit_counts 1 0 = Inl ZeroDivisionError"
    by (simp add: end_stint_pit_counts_def truediv_def)
  have b: "end_lap_pit_counts 1 1 0 = Inl ZeroDivisionError"
    by (simp add: end_lap_pit_counts_def truediv_def bind_err_def)
  have c: "update_fuel C (telemetry_zero\<lparr>vehicle_fuel := 1\<rparr>) (reset_fuel ([[99999, 0, 0]], 2, 90))
       = Inl ZeroDivisionError"
    unfolding update_fuel_def tracking_at_reset
    by (simp add: update_projection_def project_need_def end_stint_fuel_def
        end_stint_laps_def end_lap_consumption_def end_stint_pit_counts_def modf_frac_def
        read_capacity_def truediv_def bind_err_def reset_fuel_def telemetry_zero_def
        read_laptime_curr_def Let_def)
  from a b c show ?thesis by simp
qed

subsection \<open>The tank capacity\<close>

lemma read_capacity_update [simp]:
  "read_capacity (api\<lparr>vehicle_tank_capacity := c\<rparr>) = max c 1"
  by (simp add: read_capacity_def)

lemma read_laptime_curr_capacity [simp]:
  "read_laptime_curr (api\<lparr>vehicle_tank_capacity := c\<rparr>) = read_laptime_curr api"
  by (simp add: read_laptime_curr_def)

lemma project_need_capacity [simp]:
  "project_need (api\<lparr>vehicle_tank_capacity := c\<rparr>) f = project_need api f"
  by (simp add: project_need_def Let_def)

lemma projection_capacity:
  "update_projection (api\<lparr>vehicle_tank_capacity := c\<rparr>) f
     = update_projection (api\<lparr>vehicle_tank_capacity := max c 1\<rparr>) f"
  by (simp add: update_projection_def Let_def split del: if_split cong: if_cong)

lemma stages_ignore_capacity [simp]:
  "track_pit_lap (api\<lparr>vehicle_tank_capacity := c\<rparr>) = track_pit_lap api"
  "track_consumption (api\<lparr>vehicle_tank_capacity := c\<rparr>) = track_consumption api"
  "track_lap (api\<lparr>vehicle_tank_capacity := c\<rparr>) = track_lap api"
  "track_position (api\<lparr>vehicle_tank_capacity := c\<rparr>) = track_position api"
  "track_validation (api\<lparr>vehicle_tank_capacity := c\<rparr>) = track_validation api"
  "track_delta C (api\<lparr>vehicle_tank_capacity := c\<rparr>) = track_delta C api"
  by (simp_all add: fun_eq_iff track_delta_def track_validation_def track_position_def
      track_lap_def close_lap_def track_consumption_def track_pit_lap_def Let_def
      split del: if_split cong: if_cong)

lemma tracking_ignores_capacity:
  "update_tracking C (api\<lparr>vehicle_tank_capacity := c\<rparr>) f = update_tracking C api f"
  by (simp add: update_tracking_def)

text \<open>
  The capacity the loop body works with is \<open>max raw 1\<close>, and the raw reading enters the
  pass and the published values nowhere else: replacing a reading \<open>c\<close> by \<open>max c 1\<close>
  changes neither the result of the pass (new state or exception) nor what is published.
\<close>

lemma raw_capacity_clamped:
  "1 \<le> read_capacity api
   \<and> tankCapacity (output_fuel api f) = max (vehicle_tank_capacity api) 1
   \<and> 1 \<le> tankCapacity (output_fuel api f)
   \<and> update_fuel C (api\<lparr>vehicle_tank_capacity := c\<rparr>) f
       = update_fuel C (api\<lparr>vehicle_tank_capacity := max c 1\<rparr>) f
   \<and> output_fuel (api\<lparr>vehicle_tank_capacity := c\<rparr>) f
       = output_fuel (api\<lparr>vehicle_tank_capacity := max c 1\<rparr>) f"
proof -
  have "update_fuel C (api\<lparr>vehicle_tank_capacity := c\<rparr>) f
       = update_fuel C (api\<lparr>vehicle_tank_capacity := max c 1\<rparr>) f"
    unfolding update_fuel_def tracking_ignores_capacity by (rule projection_capacity)
  then show ?thesis
    by (simp add: output_fuel_def read_capacity_def)
qed

section \<open>Properties of the fuel tracking\<close>

subsection \<open>What each step of the pass keeps and changes\<close>

lemma track_pit_lap_keeps [simp]:
  "used_curr (track_pit_lap api f) = used_curr f"
  "used_last_raw (track_pit_lap api f) = used_last_raw f"
  "amount_last (track_pit_lap api f) = amount_last f"
  "amount_start (track_pit_lap api f) = amount_start f"
  "last_lap_stime (track_pit_lap api f) = last_lap_stime f"
  "validating (track_pit_lap api f) = validating f"
  "delta_list_temp (track_pit_lap api f) = delta_list_temp f"
  "delta_list_last (track_pit_lap api f) = delta_list_last f"
  "delta_list_curr (track_pit_lap api f) = delta_list_curr f"
  "recording (track_pit_lap api f) = recording f"
  by (simp_all add: track_pit_lap_def Let_def)

lemma track_consumption_keeps [simp]:
  "used_last_raw (track_consumption api f) = used_last_raw f"
  "last_lap_stime (track_consumption api f) = last_lap_stime f"
  "validating (track_consumption api f) = validating f"
  "delta_list_temp (track_consumption api f) = delta_list_temp f"
  "delta_list_last (track_consumption api f) = delta_list_last f"
  "delta_list_curr (track_consumption api f) = delta_list_curr f"
  "recording (track_consumption api f) = recording f"
  "pit_lap (track_consumption api f) = pit_lap f"
  by (simp_all add: track_consumption_def Let_def)

lemma track_position_keeps [simp]:
  "used_curr (track_position api f) = used_curr f"
  "used_last_raw (track_position api f) = used_last_raw f"
  "amount_last (track_position api f) = amount_last f"
  "amount_start (track_position api f) = amount_start f"
  "last_lap_stime (track_position api f) = last_lap_stime f"
  "validating (track_position api f) = validating f"
  "delta_list_temp (track_position api f) = delta_list_temp f"
  "delta_list_last (track_position api f) = delta_list_last f"
  "recording (track_position api f) = recording f"
  "pit_lap (track_position api f) = pit_lap f"
  by (simp_all add: track_position_def Let_def)

lemma track_validation_keeps [simp]:
  "used_curr (track_validation api f) = used_curr f"
  "used_last_raw (track_validation api f) = used_last_raw f"
  "amount_last (track_validation api f) = amount_last f"
  "amount_start (track_validation api f) = amount_start f"
  "last_lap_stime (track_validation api f) = last_lap_stime f"
  "delta_list_curr (track_validation api f) = delta_list_curr f"
  "recording (track_validation api f) = recording f"
  "pit_lap (track_validation api f) = pit_lap f"
  by (simp_all add: track_validation_def Let_def)

lemma track_delta_keeps [simp]:
  "used_curr (track_delta C api f) = used_curr f"
  "used_last_raw (track_delta C api f) = used_last_raw f"
  "amount_last (track_delta C api f) = amount_last f"
  "amount_start (track_delta C api f) = amount_start f"
  "last_lap_stime (track_delta C api f) = last_lap_stime f"
  "validating (track_delta C api f) = validating f"
  "delta_list_temp (track_delta C api f) = delta_list_temp f"
  "delta_list_last (track_delta C api f) = delta_list_last f"
  "delta_list_curr (track_delta C api f) = delta_list_curr f"
  "recording (track_delta C api f) = recording f"
  "pit_lap (track_delta C api f) = pit_lap f"
  by (simp_all add: track_delta_def Let_def)

lemma project_need_keeps [simp]:
  "used_curr (project_need api f) = used_curr f"
  "used_last_raw (project_need api f) = used_last_raw f"
  "amount_last (project_need api f) = amount_last f"
  "amount_start (project_need api f) = amount_start f"
  "last_lap_stime (project_need api f) = last_lap_stime f"
  "validating (project_need api f) = validating f"
  "delta_list_temp (project_need api f) = delta_list_temp f"
  "delta_list_last (project_need api f) = delta_list_last f"
  "delta_list_curr (project_need api f) = delta_list_curr f"
  "recording (project_need api f) = recording f"
  "pit_lap (project_need api f) = pit_lap f"
  by (simp_all add: project_need_def Let_def)


lemma track_pit_lap_flag [simp]:
  "pit_lap (track_pit_lap api f) = (pit_lap f \<or> vehicle_in_pits api)"
  by (simp add: track_pit_lap_def)

lemma track_consumption_fields [simp]:
  "amount_last (track_consumption api f) = vehicle_fuel api"
  "amount_start (track_consumption api f)
     = (if amount_last f < vehicle_fuel api then vehicle_fuel api else amount_start f)"
  "used_curr (track_consumption api f)
     = (if vehicle_fuel api < amount_last f
        then used_curr f + (amount_last f - vehicle_fuel api) else used_curr f)"
  by (simp_all add: track_consumption_def Let_def)

lemma track_lap_fields [simp]:
  "last_lap_stime (track_lap api f) = timing_start api"
  "amount_last (track_lap api f) = amount_last f"
  "amount_start (track_lap api f) = amount_start f"
  "delta_list_last (track_lap api f) = delta_list_last f"
  "used_curr (track_lap api f)
     = (if timing_start api > last_lap_stime f \<and> last_lap_stime f \<noteq> - 1 then 0 else used_curr f)"
  "used_last_raw (track_lap api f)
     = (if timing_start api > last_lap_stime f \<and> last_lap_stime f \<noteq> - 1
        then used_curr f else used_last_raw f)"
  "pit_lap (track_lap api f)
     = (if timing_start api > last_lap_stime f \<and> last_lap_stime f \<noteq> - 1 then False else pit_lap f)"
  "recording (track_lap api f)
     = (if timing_start api > last_lap_stime f \<and> last_lap_stime f \<noteq> - 1
        then read_laptime_curr api < 1 else recording f)"
  by (simp_all add: track_lap_def close_lap_def Let_def)

lemma bind_err_Inr: "bind_err m k = Inr y \<Longrightarrow> \<exists>x. m = Inr x \<and> k x = Inr y"
  by (cases m) (simp_all add: bind_err_def)

lemma projection_keeps:
  assumes "update_projection api g = Inr f'"
  shows "used_curr f' = used_curr g" "used_last_raw f' = used_last_raw g"
    "amount_last f' = amount_last g" "amount_start f' = amount_start g"
    "last_lap_stime f' = last_lap_stime g" "validating f' = validating g"
    "delta_list_temp f' = delta_list_temp g" "delta_list_last f' = delta_list_last g"
    "delta_list_curr f' = delta_list_curr g" "recording f' = recording g"
    "pit_lap f' = pit_lap g"
  using assms
  by (auto simp add: update_projection_def Let_def dest!: bind_err_Inr)


lemma tracking_fields:
  "used_curr (update_tracking C api f)
     = (if timing_start api > last_lap_stime f \<and> last_lap_stime f \<noteq> - 1 then 0
        else used_curr f
           + (if vehicle_fuel api < amount_last f then amount_last f - vehicle_fuel api else 0))"
  "used_last_raw (update_tracking C api f)
     = (if timing_start api > last_lap_stime f \<and> last_lap_stime f \<noteq> - 1
        then used_curr f
           + (if vehicle_fuel api < amount_last f then amount_last f - vehicle_fuel api else 0)
        else used_last_raw f)"
  "pit_lap (update_tracking C api f)
     = (if timing_start api > last_lap_stime f \<and> last_lap_stime f \<noteq> - 1 then False
        else (pit_lap f \<or> vehicle_in_pits api))"
  "recording (update_tracking C api f)
     = (if timing_start api > last_lap_stime f \<and> last_lap_stime f \<noteq> - 1
        then read_laptime_curr api < 1 else recording f)"
  "amount_last (update_tracking C api f) = vehicle_fuel api"
  "amount_start (update_tracking C api f)
     = (if amount_last f < vehicle_fuel api then vehicle_fuel api else amount_start f)"
  "last_lap_stime (update_tracking C api f) = timing_start api"
  by (simp_all add: update_tracking_def)


lemmas eval_defs = update_fuel_def update_tracking_def track_delta_def track_validation_def
  track_position_def track_lap_def close_lap_def track_consumption_def track_pit_lap_def
  update_projection_def project_need_def end_stint_fuel_def end_stint_laps_def
  end_lap_consumption_def end_stint_pit_counts_def end_lap_pit_counts_def
  less_pit_stop_consumption_def end_lap_empty_capacity_def modf_frac_def
  read_capacity_def read_laptime_curr_def truediv_def bind_err_def reset_fuel_def
  telemetry_zero_def calc_zero_def fuel_mid_lap_def DELTA_ZERO_def Let_def

text \<open>Two passes from the mid-lap state return: the lap start time read is 5, and 15.\<close>

lemma pass_decrease:
  "\<exists>f'. update_fuel calc_zero
      (telemetry_zero\<lparr>timing_start := 5, vehicle_fuel := 7, vehicle_tank_capacity := 100\<rparr>)
      fuel_mid_lap = Inr f'"
  by (simp add: eval_defs)

lemma pass_increase:
  "\<exists>f'. update_fuel calc_zero
      (telemetry_zero\<lparr>timing_start := 15, vehicle_fuel := 7, vehicle_tank_capacity := 100\<rparr>)
      fuel_mid_lap = Inr f'"
  by (simp add: eval_defs)

subsection \<open>A concrete session\<close>

lemmas run_defs = fuel_loaded_def tick_first_def tick_line_in_pits_def tick_pit_lane_def
  tick_on_track_def tick_next_line_def run_first_def run_opened_def run_recorded_def
  run_closed_def run_pitted_def run_pitted_recorded_def run_pitted_closed_def
  round6_def round_half_even_def

text \<open>The passes of the two runs return the states listed.\<close>

lemma run_first_pass: "update_fuel calc_zero tick_first fuel_loaded = Inr run_first"
  by (simp add: eval_defs run_defs)

lemma run_opened_pass: "update_fuel calc_zero tick_line_in_pits run_first = Inr run_opened"
  by (simp add: eval_defs run_defs)

lemma run_recorded_pass: "update_fuel calc_zero tick_on_track run_opened = Inr run_recorded"
  by (simp add: eval_defs run_defs)

lemma run_closed_pass: "update_fuel calc_zero tick_next_line run_recorded = Inr run_closed"
  by (simp add: eval_defs run_defs)

lemma run_pitted_pass: "update_fuel calc_zero tick_pit_lane run_opened = Inr run_pitted"
  by (simp add: eval_defs run_defs)

lemma run_pitted_recorded_pass:
  "update_fuel calc_zero tick_on_track run_pitted = Inr run_pitted_recorded"
  by (simp add: eval_defs run_defs)

lemma run_pitted_closed_pass:
  "update_fuel calc_zero tick_next_line run_pitted_recorded = Inr run_pitted_closed"
  by (simp add: eval_defs run_defs)

subsection \<open>The capacity operands of the projections\<close>

lemma run_small_tank_pass:
  "update_fuel calc_zero tick_small_tank fuel_loaded = Inr run_small_tank"
  by (simp add: eval_defs fuel_loaded_def tick_small_tank_def run_small_tank_def)

lemma projection_operands:
  assumes "update_projection api g = Inr f'"
  shows "end_stint_fuel (vehicle_fuel api) (used_curr f') (used_est f') = Inr (amount_left f')"
    "est_empty f' = end_lap_empty_capacity (read_capacity api) (vehicle_fuel api + used_curr f')
                      (used_last f' + delta_fuel f')"
    "end_stint_pit_counts (amount_need f') (read_capacity api - amount_left f')
       = Inr (est_pits_late f')"
    "end_lap_pit_counts (amount_need f') (est_empty f') (read_capacity api - amount_left f')
       = Inr (est_pits_early f')"
    "less_pit_stop_consumption (est_pits_late f') (read_capacity api) (vehicle_fuel api)
       (laps_left f') = Inr (used_est_less f')"
  using assms
  by (auto simp add: update_projection_def Let_def dest!: bind_err_Inr)

text \<open>
  C9, the tank capacity and the capacity operands of the projections, as the code has them.
  The capacity the loop body works with is \<open>max raw 1\<close>, hence at least 1. On a pass that
  returns, this value is what is published as \<^verbatim>\<open>tankCapacity\<close>, and it is the capacity
  operand of \<^verbatim>\<open>end_lap_empty_capacity\<close> and of \<^verbatim>\<open>less_pit_stop_consumption\<close>. The
  capacity operand of \<^verbatim>\<open>end_stint_pit_counts\<close> and of \<^verbatim>\<open>end_lap_pit_counts\<close> is another
  value: the clamped capacity minus the fuel left before the next stop, the result of
  \<^verbatim>\<open>end_stint_fuel\<close> that is published as \<^verbatim>\<open>amountFuelBeforePitstop\<close>. Each published
  projection is the result of its function at these operands.
\<close>

theorem capacity_operands:
  assumes "update_fuel C api f = Inr f'"
  shows "read_capacity api = max (vehicle_tank_capacity api) 1
       \<and> 1 \<le> read_capacity api
       \<and> tankCapacity (output_fuel api f') = read_capacity api
       \<and> est_empty f' = end_lap_empty_capacity (read_capacity api)
                           (vehicle_fuel api + used_curr f') (used_last f' + delta_fuel f')
       \<and> less_pit_stop_consumption (est_pits_late f') (read_capacity api) (vehicle_fuel api)
            (laps_left f') = Inr (used_est_less f')
       \<and> end_stint_fuel (vehicle_fuel api) (used_curr f') (used_est f') = Inr (amount_left f')
       \<and> amountFuelBeforePitstop (output_fuel api f') = amount_left f'
       \<and> end_stint_pit_counts (amount_need f') (read_capacity api - amount_left f')
            = Inr (est_pits_late f')
       \<and> end_lap_pit_counts (amount_need f') (est_empty f')
            (read_capacity api - amount_left f') = Inr (est_pits_early f')"
  using projection_operands [OF assms [unfolded update_fuel_def]]
  by (simp add: read_capacity_def output_fuel_def)

theorem capacity_operands_witness:
  "update_fuel calc_zero tick_small_tank fuel_loaded = Inr run_small_tank
   \<and> vehicle_tank_capacity tick_small_tank = 0
   \<and> tankCapacity (output_fuel tick_small_tank run_small_tank) = 1
   \<and> est_empty run_small_tank = end_lap_empty_capacity 1 (1 / 2) 2
   \<and> less_pit_stop_consumption 39 1 (1 / 2) 10 = Inr (77 / 20)
   \<and> end_stint_fuel (1 / 2) 0 2 = Inr (1 / 2)
   \<and> end_stint_pit_counts (39 / 2) (1 - 1 / 2) = Inr 39
   \<and> end_lap_pit_counts (39 / 2) (5 / 2) (1 - 1 / 2) = Inr 35"
  using capacity_operands [OF run_small_tank_pass] run_small_tank_pass
  by (simp add: run_small_tank_def fuel_loaded_def tick_small_tank_def reset_fuel_def
      telemetry_zero_def read_capacity_def output_fuel_def)

text \<open>
  The claim as stated, with every capacity operand of the projection formulas at least 1,
  fails for the two pit-count projections. On the first pass of a session with a reported
  tank capacity of 0, fuel level 1/2 and a last-lap usage of 2, the capacity is clamped to
  1 and published as 1, the fuel left before the next stop is 1/2, and the capacity operand
  of \<^verbatim>\<open>end_stint_pit_counts\<close> and \<^verbatim>\<open>end_lap_pit_counts\<close> is 1 - 1/2 = 1/2: the published
  count 39 is the fuel needed, 39/2, divided by 1/2, where an operand of 1 would give 39/2.
\<close>

theorem capacity_operand_counterexample:
  "vehicle_tank_capacity tick_small_tank = 0
   \<and> update_fuel calc_zero tick_small_tank fuel_loaded = Inr run_small_tank
   \<and> read_capacity tick_small_tank = 1
   \<and> tankCapacity (output_fuel tick_small_tank run_small_tank) = 1
   \<and> amount_left run_small_tank = 1 / 2
   \<and> read_capacity tick_small_tank - amount_left run_small_tank = 1 / 2
   \<and> \<not> 1 \<le> read_capacity tick_small_tank - amount_left run_small_tank
   \<and> amount_need run_small_tank = 39 / 2
   \<and> est_pits_late run_small_tank = 39
   \<and> end_stint_pit_counts (39 / 2) (1 / 2) = Inr 39
   \<and> end_stint_pit_counts (39 / 2) 1 = Inr (39 / 2)
   \<and> est_pits_early run_small_tank = 35
   \<and> end_lap_pit_counts (39 / 2) (5 / 2) (1 / 2) = Inr 35
   \<and> end_lap_pit_counts (39 / 2) (5 / 2) 1 = Inr 18"
proof -
  have a: "update_fuel calc_zero tick_small_tank fuel_loaded = Inr run_small_tank"
    by (rule run_small_tank_pass)
  have b: "vehicle_tank_capacity tick_small_tank = 0 \<and> read_capacity tick_small_tank = 1
     \<and> tankCapacity (output_fuel tick_small_tank run_small_tank) = 1"
    by (simp add: tick_small_tank_def telemetry_zero_def read_capacity_def output_fuel_def)
  have c: "amount_left run_small_tank = 1 / 2 \<and> amount_need run_small_tank = 39 / 2
     \<and> est_pits_late run_small_tank = 39 \<and> est_pits_early run_small_tank = 35"
    by (simp add: run_small_tank_def)
  have d: "end_stint_pit_counts (39 / 2) (1 / 2) = Inr 39
     \<and> end_stint_pit_counts (39 / 2) 1 = Inr (39 / 2)
     \<and> end_lap_pit_counts (39 / 2) (5 / 2) (1 / 2) = Inr 35
     \<and> end_lap_pit_counts (39 / 2) (5 / 2) 1 = Inr 18"
    by (simp add: end_stint_pit_counts_def end_lap_pit_counts_def truediv_def bind_err_def
        Let_def)
  from a b c d show ?thesis by simp
qed

subsection \<open>Lap boundary\<close>

text \<open>
  C2, detection of a new lap, as the code decides it. On a pass that returns, the branch
  that closes the lap and resets the per-lap accumulators fires if and only if the lap
  start time read is GREATER than the one seen last and the one seen last is not the
  initial sentinel -1. When it fires, the usage accumulated so far (including this pass's
  consumption) becomes the raw usage of the last lap, the usage of the current lap restarts
  at 0, the pit-lap flag is cleared and recording is armed if the lap time is below 1
  second; otherwise the accumulators carry on.
\<close>

theorem lap_boundary_detection:
  assumes "update_fuel C api f = Inr f'"
  shows "let used = used_curr f
           + (if vehicle_fuel api < amount_last f then amount_last f - vehicle_fuel api else 0)
         in if timing_start api > last_lap_stime f \<and> last_lap_stime f \<noteq> - 1
            then used_curr f' = 0 \<and> used_last_raw f' = used
                 \<and> \<not> pit_lap f' \<and> recording f' = (read_laptime_curr api < 1)
            else used_curr f' = used \<and> used_last_raw f' = used_last_raw f
                 \<and> pit_lap f' = (pit_lap f \<or> vehicle_in_pits api)
                 \<and> recording f' = recording f"
  using projection_keeps [OF assms [unfolded update_fuel_def]]
  by (simp add: tracking_fields Let_def)

theorem lap_boundary_detection_witness:
  "\<not> isl (update_fuel calc_zero
      (telemetry_zero\<lparr>timing_start := 15, vehicle_fuel := 7, vehicle_tank_capacity := 100\<rparr>)
      fuel_mid_lap)
   \<and> used_curr (projr (update_fuel calc_zero
      (telemetry_zero\<lparr>timing_start := 15, vehicle_fuel := 7, vehicle_tank_capacity := 100\<rparr>)
      fuel_mid_lap)) = 0
   \<and> used_last_raw (projr (update_fuel calc_zero
      (telemetry_zero\<lparr>timing_start := 15, vehicle_fuel := 7, vehicle_tank_capacity := 100\<rparr>)
      fuel_mid_lap)) = 3"
proof -
  obtain f' where eq: "update_fuel calc_zero
      (telemetry_zero\<lparr>timing_start := 15, vehicle_fuel := 7, vehicle_tank_capacity := 100\<rparr>)
      fuel_mid_lap = Inr f'"
    using pass_increase by blast
  from lap_boundary_detection [OF eq] have "used_curr f' = 0 \<and> used_last_raw f' = 3"
    by (simp add: Let_def fuel_mid_lap_def reset_fuel_def telemetry_zero_def)
  with eq show ?thesis by simp
qed

text \<open>
  The claim as stated, with a decrease of the lap start time as the trigger, fails in both
  directions. From the mid-lap state (lap start time 10 seen last, 3 used in this lap, 2
  in the last lap) a pass that reads lap start time 5 leaves the accumulators as they are,
  and a pass that reads 15 resets them.
\<close>

theorem lap_boundary_decrease_counterexample:
  "(5::real) < 10 \<and> (10::real) \<noteq> - 1
   \<and> \<not> isl (update_fuel calc_zero
      (telemetry_zero\<lparr>timing_start := 5, vehicle_fuel := 7, vehicle_tank_capacity := 100\<rparr>)
      fuel_mid_lap)
   \<and> used_curr (projr (update_fuel calc_zero
      (telemetry_zero\<lparr>timing_start := 5, vehicle_fuel := 7, vehicle_tank_capacity := 100\<rparr>)
      fuel_mid_lap)) = 3
   \<and> used_last_raw (projr (update_fuel calc_zero
      (telemetry_zero\<lparr>timing_start := 5, vehicle_fuel := 7, vehicle_tank_capacity := 100\<rparr>)
      fuel_mid_lap)) = 2
   \<and> \<not> (15::real) < 10
   \<and> used_curr (projr (update_fuel calc_zero
      (telemetry_zero\<lparr>timing_start := 15, vehicle_fuel := 7, vehicle_tank_capacity := 100\<rparr>)
      fuel_mid_lap)) = 0
   \<and> used_last_raw (projr (update_fuel calc_zero
      (telemetry_zero\<lparr>timing_start := 15, vehicle_fuel := 7, vehicle_tank_capacity := 100\<rparr>)
      fuel_mid_lap)) = 3"
proof -
  obtain f' where eq: "update_fuel calc_zero
      (telemetry_zero\<lparr>timing_start := 5, vehicle_fuel := 7, vehicle_tank_capacity := 100\<rparr>)
      fuel_mid_lap = Inr f'"
    using pass_decrease by blast
  obtain g' where eq': "update_fuel calc_zero
      (telemetry_zero\<lparr>timing_start := 15, vehicle_fuel := 7, vehicle_tank_capacity := 100\<rparr>)
      fuel_mid_lap = Inr g'"
    using pass_increase by blast
  from projection_keeps(1,2) [OF eq [unfolded update_fuel_def]]
  have a: "used_curr f' = 3 \<and> used_last_raw f' = 2"
    by (simp add: tracking_fields fuel_mid_lap_def reset_fuel_def telemetry_zero_def)
  from projection_keeps(1,2) [OF eq' [unfolded update_fuel_def]]
  have b: "used_curr g' = 0 \<and> used_last_raw g' = 3"
    by (simp add: tracking_fields fuel_mid_lap_def reset_fuel_def telemetry_zero_def)
  from a b eq eq' show ?thesis by simp
qed

subsection \<open>Fuel used in the lap\<close>

lemma tick_usage:
  assumes "update_fuel C api f = Inr f'"
  shows "amount_last f' = vehicle_fuel api"
    and "used_curr f = 0 \<Longrightarrow> amount_last f \<le> vehicle_fuel api \<Longrightarrow> used_curr f' = 0"
    and "0 \<le> used_curr f \<Longrightarrow> 0 \<le> used_curr f'"
  using projection_keeps [OF assms [unfolded update_fuel_def]]
  by (simp_all add: tracking_fields)

lemma seq_usage_zero:
  "update_fuel_seq C apis f = Inr f' \<Longrightarrow> used_curr f = 0
     \<Longrightarrow> sorted (amount_last f # map vehicle_fuel apis) \<Longrightarrow> used_curr f' = 0"
proof (induction apis arbitrary: f)
  case Nil
  then show ?case by simp
next
  case (Cons api apis)
  from Cons.prems(1) obtain g where g: "update_fuel C api f = Inr g"
    and rest: "update_fuel_seq C apis g = Inr f'"
    by (auto dest!: bind_err_Inr)
  from Cons.prems(3) have le: "amount_last f \<le> vehicle_fuel api"
    and srt: "sorted (vehicle_fuel api # map vehicle_fuel apis)"
    by simp_all
  from tick_usage(2) [OF g Cons.prems(2) le] have z: "used_curr g = 0" .
  from tick_usage(1) [OF g] srt have "sorted (amount_last g # map vehicle_fuel apis)"
    by simp
  from Cons.IH [OF rest z this] show ?case .
qed

lemma seq_usage_nonneg:
  "update_fuel_seq C apis f = Inr f' \<Longrightarrow> 0 \<le> used_curr f \<Longrightarrow> 0 \<le> used_curr f'"
proof (induction apis arbitrary: f)
  case Nil
  then show ?case by simp
next
  case (Cons api apis)
  from Cons.prems(1) obtain g where g: "update_fuel C api f = Inr g"
    and rest: "update_fuel_seq C apis g = Inr f'"
    by (auto dest!: bind_err_Inr)
  from Cons.IH [OF rest tick_usage(3) [OF g Cons.prems(2)]] show ?case .
qed


text \<open>
  C7, fuel readings and the usage of the lap. Over any run of passes that return, starting
  with no usage in the lap, if every fuel reading is at least the one before it (the first
  at least the level held in the state, which is 0 after a reset), the usage of the lap is
  0 after the run, hence after every pass of it; and usage that starts non-negative stays
  non-negative. On a single pass the level held becomes the reading; a reading below the
  level held adds exactly the difference to the usage, a reading above it adds nothing and
  only moves the start-of-lap amount to the reading. (On a pass that detects a lap boundary
  the usage so accumulated is what is handed over as the last lap's raw usage.)
\<close>

theorem fuel_usage_accumulation:
  "(update_fuel_seq C apis f = Inr f' \<and> used_curr f = 0
      \<and> sorted (amount_last f # map vehicle_fuel apis) \<longrightarrow> used_curr f' = 0)
   \<and> (update_fuel_seq C apis f = Inr f' \<and> 0 \<le> used_curr f \<longrightarrow> 0 \<le> used_curr f')
   \<and> (update_fuel C api f = Inr g \<longrightarrow>
        amount_last g = vehicle_fuel api
        \<and> (if timing_start api > last_lap_stime f \<and> last_lap_stime f \<noteq> - 1
            then used_last_raw g else used_curr g)
          = used_curr f
            + (if vehicle_fuel api < amount_last f then amount_last f - vehicle_fuel api else 0)
        \<and> amount_start g
          = (if amount_last f < vehicle_fuel api then vehicle_fuel api else amount_start f))"
proof (intro conjI impI)
  assume "update_fuel_seq C apis f = Inr f' \<and> used_curr f = 0
      \<and> sorted (amount_last f # map vehicle_fuel apis)"
  then show "used_curr f' = 0" using seq_usage_zero by blast
next
  assume "update_fuel_seq C apis f = Inr f' \<and> 0 \<le> used_curr f"
  then show "0 \<le> used_curr f'" using seq_usage_nonneg by blast
next
  assume g: "update_fuel C api f = Inr g"
  from projection_keeps [OF g [unfolded update_fuel_def]]
  show "amount_last g = vehicle_fuel api"
    and "(if timing_start api > last_lap_stime f \<and> last_lap_stime f \<noteq> - 1
            then used_last_raw g else used_curr g)
          = used_curr f
            + (if vehicle_fuel api < amount_last f then amount_last f - vehicle_fuel api else 0)"
    and "amount_start g
          = (if amount_last f < vehicle_fuel api then vehicle_fuel api else amount_start f)"
    by (simp_all add: tracking_fields)
qed

text \<open>
  Two passes after a reset with readings 5 then 8 leave the usage at 0; a pass from the
  mid-lap state (level 7, 3 used) that reads 6 brings the usage to 4.
\<close>

lemma refuel_passes:
  "\<exists>f'. update_fuel_seq calc_zero
      [telemetry_zero\<lparr>vehicle_fuel := 5, vehicle_tank_capacity := 100\<rparr>,
       telemetry_zero\<lparr>vehicle_fuel := 8, vehicle_tank_capacity := 100\<rparr>]
      (reset_fuel ([[99999, 0, 0]], 2, 90)) = Inr f'"
  by (simp add: eval_defs)

lemma pass_consume:
  "\<exists>f'. update_fuel calc_zero
      (telemetry_zero\<lparr>timing_start := 10, vehicle_fuel := 6, vehicle_tank_capacity := 100\<rparr>)
      fuel_mid_lap = Inr f'"
  by (simp add: eval_defs)

theorem fuel_usage_accumulation_witness:
  "\<not> isl (update_fuel_seq calc_zero
      [telemetry_zero\<lparr>vehicle_fuel := 5, vehicle_tank_capacity := 100\<rparr>,
       telemetry_zero\<lparr>vehicle_fuel := 8, vehicle_tank_capacity := 100\<rparr>]
      (reset_fuel ([[99999, 0, 0]], 2, 90)))
   \<and> used_curr (projr (update_fuel_seq calc_zero
      [telemetry_zero\<lparr>vehicle_fuel := 5, vehicle_tank_capacity := 100\<rparr>,
       telemetry_zero\<lparr>vehicle_fuel := 8, vehicle_tank_capacity := 100\<rparr>]
      (reset_fuel ([[99999, 0, 0]], 2, 90)))) = 0
   \<and> \<not> isl (update_fuel calc_zero
      (telemetry_zero\<lparr>timing_start := 10, vehicle_fuel := 6, vehicle_tank_capacity := 100\<rparr>)
      fuel_mid_lap)
   \<and> used_curr (projr (update_fuel calc_zero
      (telemetry_zero\<lparr>timing_start := 10, vehicle_fuel := 6, vehicle_tank_capacity := 100\<rparr>)
      fuel_mid_lap)) = 4"
proof -
  obtain f' where eq: "update_fuel_seq calc_zero
      [telemetry_zero\<lparr>vehicle_fuel := 5, vehicle_tank_capacity := 100\<rparr>,
       telemetry_zero\<lparr>vehicle_fuel := 8, vehicle_tank_capacity := 100\<rparr>]
      (reset_fuel ([[99999, 0, 0]], 2, 90)) = Inr f'"
    using refuel_passes by blast
  obtain g where eq': "update_fuel calc_zero
      (telemetry_zero\<lparr>timing_start := 10, vehicle_fuel := 6, vehicle_tank_capacity := 100\<rparr>)
      fuel_mid_lap = Inr g"
    using pass_consume by blast
  from fuel_usage_accumulation [where C = calc_zero and f' = f'
      and f = "reset_fuel ([[99999, 0, 0]], 2, 90)"
      and apis = "[telemetry_zero\<lparr>vehicle_fuel := 5, vehicle_tank_capacity := 100\<rparr>,
        telemetry_zero\<lparr>vehicle_fuel := 8, vehicle_tank_capacity := 100\<rparr>]"] eq
  have a: "used_curr f' = 0"
    by (simp add: reset_fuel_def telemetry_zero_def)
  from fuel_usage_accumulation [where C = calc_zero and f = fuel_mid_lap and g = g
      and api = "telemetry_zero\<lparr>timing_start := 10, vehicle_fuel := 6,
                  vehicle_tank_capacity := 100\<rparr>"] eq'
  have b: "used_curr g = 4"
    by (simp add: fuel_mid_lap_def reset_fuel_def telemetry_zero_def)
  from a b have "used_curr f' = 0 \<and> used_curr g = 4" by simp
  with eq eq' show ?thesis by simp
qed


subsection \<open>Pit laps\<close>

lemma track_lap_staging:
  "validating (track_lap api f)
     = (if timing_start api > last_lap_stime f \<and> last_lap_stime f \<noteq> - 1
           \<and> length (delta_list_curr f) > 1 \<and> \<not> pit_lap f
        then True else validating f)"
  "delta_list_temp (track_lap api f)
     = (if timing_start api > last_lap_stime f \<and> last_lap_stime f \<noteq> - 1
           \<and> length (delta_list_curr f) > 1 \<and> \<not> pit_lap f
        then delta_list_curr f @
               [[round6 (pos_last f + 10), round6 (used_curr f),
                 round6 (timing_start api - last_lap_stime f)]]
        else delta_list_temp f)"
  by (simp_all add: track_lap_def close_lap_def Let_def)

lemma track_validation_staging:
  "validating (track_validation api f) \<longrightarrow> validating f"
  "delta_list_temp (track_validation api f) = delta_list_temp f
     \<or> delta_list_temp (track_validation api f) = [DELTA_ZERO]"
  "delta_list_last (track_validation api f) = delta_list_last f
     \<or> delta_list_last (track_validation api f) = delta_list_temp f"
  by (simp_all add: track_validation_def Let_def)

lemma tracking_no_staging:
  assumes "pit_lap f \<or> vehicle_in_pits api"
  shows "validating (update_tracking C api f) \<longrightarrow> validating f"
    and "delta_list_temp (update_tracking C api f) = delta_list_temp f
     \<or> delta_list_temp (update_tracking C api f) = [DELTA_ZERO]"
    and "delta_list_last (update_tracking C api f) = delta_list_last f
     \<or> delta_list_last (update_tracking C api f) = delta_list_temp f"
proof -
  let ?g = "track_position api (track_lap api (track_consumption api (track_pit_lap api f)))"
  from assms have v: "validating ?g = validating f" and t: "delta_list_temp ?g = delta_list_temp f"
    and l: "delta_list_last ?g = delta_list_last f"
    by (simp_all add: track_lap_staging)
  have u: "update_tracking C api f = track_delta C api (track_validation api ?g)"
    by (simp add: update_tracking_def)
  from track_validation_staging(1) [of api ?g] v
  show "validating (update_tracking C api f) \<longrightarrow> validating f"
    unfolding u by simp
  from track_validation_staging(2) [of api ?g] t
  show "delta_list_temp (update_tracking C api f) = delta_list_temp f
     \<or> delta_list_temp (update_tracking C api f) = [DELTA_ZERO]"
    unfolding u by simp
  from track_validation_staging(3) [of api ?g] t l
  show "delta_list_last (update_tracking C api f) = delta_list_last f
     \<or> delta_list_last (update_tracking C api f) = delta_list_temp f"
    unfolding u by simp
qed

lemma seq_pit_lap:
  "update_fuel_seq C apis f = Inr g \<Longrightarrow> within_lap (last_lap_stime f) apis
     \<Longrightarrow> pit_lap g = (pit_lap f \<or> (\<exists>a\<in>set apis. vehicle_in_pits a))"
proof (induction apis arbitrary: f)
  case Nil
  then show ?case by simp
next
  case (Cons api apis)
  from Cons.prems(1) obtain h where h: "update_fuel C api f = Inr h"
    and rest: "update_fuel_seq C apis h = Inr g"
    by (auto dest!: bind_err_Inr)
  from Cons.prems(2) have nb: "\<not> (timing_start api > last_lap_stime f \<and> last_lap_stime f \<noteq> - 1)"
    and wl: "within_lap (timing_start api) apis"
    by simp_all
  from projection_keeps(5,11) [OF h [unfolded update_fuel_def]] nb
  have st: "last_lap_stime h = timing_start api"
    and pl: "pit_lap h = (pit_lap f \<or> vehicle_in_pits api)"
    by (simp_all add: tracking_fields)
  from Cons.IH [OF rest] wl st have "pit_lap g = (pit_lap h \<or> (\<exists>a\<in>set apis. vehicle_in_pits a))"
    by simp
  with pl show ?case by auto
qed

lemma no_staging_after_pits:
  assumes seq: "update_fuel_seq C apis f = Inr g" and wl: "within_lap (last_lap_stime f) apis"
    and b: "update_fuel C b g = Inr g'"
    and pits: "pit_lap f \<or> (\<exists>a\<in>set (apis @ [b]). vehicle_in_pits a)"
  shows "(validating g' \<longrightarrow> validating g)
        \<and> (delta_list_temp g' = delta_list_temp g \<or> delta_list_temp g' = [DELTA_ZERO])
        \<and> (delta_list_last g' = delta_list_last g \<or> delta_list_last g' = delta_list_temp g)"
proof -
  from seq_pit_lap [OF seq wl] pits have p: "pit_lap g \<or> vehicle_in_pits b" by auto
  from b have e: "update_projection b (update_tracking C b g) = Inr g'"
    by (simp add: update_fuel_def)
  from tracking_no_staging [OF p, of C] projection_keeps(6,7,8) [OF e]
  show ?thesis by simp
qed

text \<open>A lap without pits whose curve has more than the seed point is staged.\<close>

lemma clean_lap_is_staged:
  assumes "update_fuel C api f = Inr f'"
    and "timing_start api > last_lap_stime f" and "last_lap_stime f \<noteq> - 1"
    and "length (delta_list_curr f) > 1" and "\<not> pit_lap f" and "\<not> vehicle_in_pits api"
    and "read_laptime_curr api \<le> 2 / 10"
  shows "validating f'"
    and "delta_list_temp f' = delta_list_curr f @
           [[round6 (pos_last f + 10),
             round6 (used_curr f + (if vehicle_fuel api < amount_last f
                                    then amount_last f - vehicle_fuel api else 0)),
             round6 (timing_start api - last_lap_stime f)]]"
proof -
  let ?g = "track_position api (track_lap api (track_consumption api (track_pit_lap api f)))"
  have u: "update_tracking C api f = track_delta C api (track_validation api ?g)"
    by (simp add: update_tracking_def)
  from assms(2-6) have v: "validating ?g"
    and t: "delta_list_temp ?g = delta_list_curr f @
           [[round6 (pos_last f + 10),
             round6 (used_curr f + (if vehicle_fuel api < amount_last f
                                    then amount_last f - vehicle_fuel api else 0)),
             round6 (timing_start api - last_lap_stime f)]]"
    by (simp_all add: track_lap_staging track_pit_lap_def track_consumption_def Let_def)
  from assms(7) have k: "track_validation api ?g = ?g"
    by (simp add: track_validation_def Let_def)
  from projection_keeps(6,7) [OF assms(1) [unfolded update_fuel_def]] v t
  show "validating f'"
    and "delta_list_temp f' = delta_list_curr f @
           [[round6 (pos_last f + 10),
             round6 (used_curr f + (if vehicle_fuel api < amount_last f
                                    then amount_last f - vehicle_fuel api else 0)),
             round6 (timing_start api - last_lap_stime f)]]"
    unfolding u k by simp_all
qed


lemma lap_pit_lap:
  assumes o: "update_fuel C api0 f0 = Inr f"
    and b: "timing_start api0 > last_lap_stime f0" "last_lap_stime f0 \<noteq> - 1"
    and seq: "update_fuel_seq C apis f = Inr g" and wl: "within_lap (last_lap_stime f) apis"
  shows "pit_lap g = (\<exists>a\<in>set apis. vehicle_in_pits a)"
proof -
  from projection_keeps(11) [OF o [unfolded update_fuel_def]] b have "\<not> pit_lap f"
    by (simp add: tracking_fields)
  with seq_pit_lap [OF seq wl] show ?thesis by simp
qed

text \<open>
  C10, the pit-lap flag within a lap, as the code has it. On a pass that returns, the flag
  after the pass is false if the pass detects a lap boundary, whatever the pass read, and
  otherwise it is the flag before the pass or the in-pits reading of the pass. So over a
  run of passes without a lap boundary the flag is true at the end exactly if it was true
  at the start or some pass of the run read in-pits: once set it stays set on every later
  pass of the lap. Counted from the pass \<open>api0\<close> that detects the boundary and opens the
  lap, the flag is true exactly if a pass after the opening one read in-pits; the reading
  of the opening pass itself does not count for the lap it opens. Consequently, if the
  vehicle was seen in the pits in the lap (the flag set before the run, a reading in the
  run, or the reading of the closing pass \<open>b\<close> itself), the pass \<open>b\<close> stages nothing:
  validation is not switched on by it, the staged curve is the one staged before or the
  seed, and the reference curve is the one before or the curve staged before.
\<close>

theorem pit_lap_sticky:
  "(update_fuel C api f = Inr f' \<longrightarrow>
      pit_lap f' = (if timing_start api > last_lap_stime f \<and> last_lap_stime f \<noteq> - 1
                    then False else pit_lap f \<or> vehicle_in_pits api))
   \<and> (update_fuel_seq C apis f = Inr g \<and> within_lap (last_lap_stime f) apis \<longrightarrow>
        pit_lap g = (pit_lap f \<or> (\<exists>a\<in>set apis. vehicle_in_pits a)))
   \<and> (update_fuel C api0 f0 = Inr f
        \<and> timing_start api0 > last_lap_stime f0 \<and> last_lap_stime f0 \<noteq> - 1
        \<and> update_fuel_seq C apis f = Inr g \<and> within_lap (last_lap_stime f) apis \<longrightarrow>
        pit_lap g = (\<exists>a\<in>set apis. vehicle_in_pits a))
   \<and> (update_fuel_seq C apis f = Inr g \<and> within_lap (last_lap_stime f) apis
        \<and> update_fuel C b g = Inr g'
        \<and> (pit_lap f \<or> (\<exists>a\<in>set (apis @ [b]). vehicle_in_pits a)) \<longrightarrow>
        (validating g' \<longrightarrow> validating g)
        \<and> (delta_list_temp g' = delta_list_temp g \<or> delta_list_temp g' = [DELTA_ZERO])
        \<and> (delta_list_last g' = delta_list_last g \<or> delta_list_last g' = delta_list_temp g))"
proof -
  have one: "update_fuel C api f = Inr f' \<longrightarrow>
      pit_lap f' = (if timing_start api > last_lap_stime f \<and> last_lap_stime f \<noteq> - 1
                    then False else pit_lap f \<or> vehicle_in_pits api)"
  proof
    assume "update_fuel C api f = Inr f'"
    from projection_keeps(11) [OF this [unfolded update_fuel_def]]
    show "pit_lap f' = (if timing_start api > last_lap_stime f \<and> last_lap_stime f \<noteq> - 1
                    then False else pit_lap f \<or> vehicle_in_pits api)"
      by (simp add: tracking_fields)
  qed
  have two: "update_fuel_seq C apis f = Inr g \<and> within_lap (last_lap_stime f) apis \<longrightarrow>
        pit_lap g = (pit_lap f \<or> (\<exists>a\<in>set apis. vehicle_in_pits a))"
    using seq_pit_lap by blast
  have three: "update_fuel C api0 f0 = Inr f
        \<and> timing_start api0 > last_lap_stime f0 \<and> last_lap_stime f0 \<noteq> - 1
        \<and> update_fuel_seq C apis f = Inr g \<and> within_lap (last_lap_stime f) apis \<longrightarrow>
        pit_lap g = (\<exists>a\<in>set apis. vehicle_in_pits a)"
    using lap_pit_lap by blast
  have four: "update_fuel_seq C apis f = Inr g \<and> within_lap (last_lap_stime f) apis
        \<and> update_fuel C b g = Inr g'
        \<and> (pit_lap f \<or> (\<exists>a\<in>set (apis @ [b]). vehicle_in_pits a)) \<longrightarrow>
        (validating g' \<longrightarrow> validating g)
        \<and> (delta_list_temp g' = delta_list_temp g \<or> delta_list_temp g' = [DELTA_ZERO])
        \<and> (delta_list_last g' = delta_list_last g \<or> delta_list_last g' = delta_list_temp g)"
    using no_staging_after_pits by blast
  from one two three four show ?thesis by (intro conjI)
qed

text \<open>
  A lap with a pit stop: the lap is opened by \<open>tick_line_in_pits\<close>, the vehicle is still in
  the pits on the next pass and out of them on the pass after it, where the flag is still
  set; the pass that closes the lap stages nothing although the curve of the lap has three
  points.
\<close>

lemma run_pitted_seq:
  "update_fuel_seq calc_zero [tick_pit_lane, tick_on_track] run_opened
     = Inr run_pitted_recorded"
  by (simp add: run_pitted_pass run_pitted_recorded_pass bind_err_def)

theorem pit_lap_sticky_witness:
  "update_fuel calc_zero tick_line_in_pits run_first = Inr run_opened
   \<and> last_lap_stime run_first < timing_start tick_line_in_pits
   \<and> update_fuel_seq calc_zero [tick_pit_lane, tick_on_track] run_opened
       = Inr run_pitted_recorded
   \<and> within_lap (last_lap_stime run_opened) [tick_pit_lane, tick_on_track]
   \<and> vehicle_in_pits tick_pit_lane \<and> \<not> vehicle_in_pits tick_on_track
   \<and> update_fuel calc_zero tick_pit_lane run_opened = Inr run_pitted
   \<and> pit_lap run_pitted
   \<and> update_fuel calc_zero tick_on_track run_pitted = Inr run_pitted_recorded
   \<and> pit_lap run_pitted_recorded
   \<and> update_fuel calc_zero tick_next_line run_pitted_recorded = Inr run_pitted_closed
   \<and> last_lap_stime run_pitted_recorded < timing_start tick_next_line
   \<and> \<not> vehicle_in_pits tick_next_line
   \<and> length (delta_list_curr run_pitted_recorded) = 3
   \<and> \<not> pit_lap run_pitted_closed
   \<and> \<not> validating run_pitted_closed
   \<and> delta_list_temp run_pitted_closed = [DELTA_ZERO]
   \<and> delta_list_last run_pitted_closed = [[0, 0], [100, 2, 90]]"
proof -
  note fields = run_defs reset_fuel_def telemetry_zero_def DELTA_ZERO_def
  have wl: "within_lap (last_lap_stime run_opened) [tick_pit_lane, tick_on_track]"
    by (simp add: fields)
  have rd: "last_lap_stime run_first < timing_start tick_line_in_pits
      \<and> last_lap_stime run_first \<noteq> - 1
      \<and> vehicle_in_pits tick_pit_lane \<and> \<not> vehicle_in_pits tick_on_track
      \<and> last_lap_stime run_pitted_recorded < timing_start tick_next_line
      \<and> \<not> vehicle_in_pits tick_next_line
      \<and> length (delta_list_curr run_pitted_recorded) = 3"
    by (simp add: fields)
  from pit_lap_sticky [where C = calc_zero and api = tick_pit_lane and f = run_opened
      and f' = run_pitted and apis = "[tick_pit_lane, tick_on_track]"
      and g = run_pitted_recorded and api0 = tick_line_in_pits and f0 = run_first
      and b = tick_next_line and g' = run_pitted_closed]
    run_opened_pass run_pitted_pass run_pitted_seq run_pitted_closed_pass wl rd
  have a: "pit_lap run_pitted \<and> pit_lap run_pitted_recorded
      \<and> \<not> validating run_pitted_closed
      \<and> delta_list_temp run_pitted_closed = [DELTA_ZERO]
      \<and> delta_list_last run_pitted_closed = [[0, 0], [100, 2, 90]]"
    by (simp add: fields)
  from pit_lap_sticky [where C = calc_zero and api = tick_next_line
      and f = run_pitted_recorded and f' = run_pitted_closed and apis = "[]"
      and g = run_pitted_recorded and api0 = tick_on_track and f0 = run_pitted
      and b = tick_next_line and g' = run_pitted_closed]
    run_pitted_closed_pass
  have b: "\<not> pit_lap run_pitted_closed"
    by (simp add: fields)
  from a b wl rd run_opened_pass run_pitted_pass run_pitted_recorded_pass run_pitted_seq
    run_pitted_closed_pass
  show ?thesis by simp
qed

text \<open>
  The claim as stated, with an in-pits reading at any pass of the lap, fails for the pass
  that opens the lap. The pass of \<open>tick_line_in_pits\<close> detects the lap boundary (lap start
  time 100 after 10) and reads in-pits true; the flag is set at the top of the pass and
  cleared again by the lap block of the same pass, so it is false after that pass and
  after the next pass of the lap, \<open>tick_on_track\<close>, which records a point of the curve.
  The pass of \<open>tick_next_line\<close> closes that lap and stages its curve for validation.
\<close>

theorem pit_lap_opening_pass_counterexample:
  "update_fuel_seq calc_zero [tick_first, tick_line_in_pits] fuel_loaded = Inr run_opened
   \<and> vehicle_in_pits tick_line_in_pits
   \<and> last_lap_stime run_first = 10 \<and> timing_start tick_line_in_pits = 100
   \<and> last_lap_stime run_opened = 100
   \<and> \<not> pit_lap run_opened
   \<and> update_fuel_seq calc_zero [tick_first, tick_line_in_pits, tick_on_track] fuel_loaded
       = Inr run_recorded
   \<and> timing_start tick_on_track = 100
   \<and> \<not> pit_lap run_recorded
   \<and> update_fuel_seq calc_zero
        [tick_first, tick_line_in_pits, tick_on_track, tick_next_line] fuel_loaded
       = Inr run_closed
   \<and> timing_start tick_next_line = 190
   \<and> \<not> validating run_recorded
   \<and> delta_list_temp run_recorded = [[0, 0]]
   \<and> validating run_closed
   \<and> delta_list_temp run_closed = [[0, 0], [50, 1], [60, 2, 90]]"
proof -
  have a: "update_fuel_seq calc_zero [tick_first, tick_line_in_pits] fuel_loaded
       = Inr run_opened"
    by (simp add: run_first_pass run_opened_pass bind_err_def)
  have b: "update_fuel_seq calc_zero [tick_first, tick_line_in_pits, tick_on_track]
       fuel_loaded = Inr run_recorded"
    by (simp add: run_first_pass run_opened_pass run_recorded_pass bind_err_def)
  have c: "update_fuel_seq calc_zero
        [tick_first, tick_line_in_pits, tick_on_track, tick_next_line] fuel_loaded
       = Inr run_closed"
    by (simp add: run_first_pass run_opened_pass run_recorded_pass run_closed_pass
        bind_err_def)
  have d: "vehicle_in_pits tick_line_in_pits
   \<and> last_lap_stime run_first = 10 \<and> timing_start tick_line_in_pits = 100
   \<and> last_lap_stime run_opened = 100 \<and> \<not> pit_lap run_opened
   \<and> timing_start tick_on_track = 100 \<and> \<not> pit_lap run_recorded
   \<and> timing_start tick_next_line = 190
   \<and> \<not> validating run_recorded \<and> delta_list_temp run_recorded = [[0, 0]]
   \<and> validating run_closed
   \<and> delta_list_temp run_closed = [[0, 0], [50, 1], [60, 2, 90]]"
    by (simp add: run_defs reset_fuel_def telemetry_zero_def DELTA_ZERO_def)
  from a b c d show ?thesis by simp
qed

section \<open>Properties of the worker threads\<close>




























end
